theory Spec2Isabelle
  imports Main
begin

section \<open>Go string primitives used by the patch engine\<close>

text \<open>
  Go strings are byte sequences (UTF-8); a \<^typ>\<open>string\<close> here is the same byte sequence.
  \<open>strings.TrimSpace\<close> removes leading and trailing Unicode white space; on bytes this is
  the six ASCII white-space characters and the UTF-8 encodings of U+0085, U+00A0, U+1680,
  U+2000..U+200A, U+2028, U+2029, U+202F, U+205F and U+3000.
\<close>

abbreviation NL :: char where "NL \<equiv> CHR 0x0A"

definition is_ascii_space :: "char \<Rightarrow> bool" where
  "is_ascii_space c = (c = CHR '' '' \<or> c = CHR 0x09 \<or> c = CHR 0x0A \<or> c = CHR 0x0B
                        \<or> c = CHR 0x0C \<or> c = CHR 0x0D)"

definition is_space2 :: "char \<Rightarrow> char \<Rightarrow> bool" where
  "is_space2 a b = (a = CHR 0xC2 \<and> (b = CHR 0x85 \<or> b = CHR 0xA0))"

definition is_space3 :: "char \<Rightarrow> char \<Rightarrow> char \<Rightarrow> bool" where
  "is_space3 a b c =
     ((a = CHR 0xE1 \<and> b = CHR 0x9A \<and> c = CHR 0x80)
      \<or> (a = CHR 0xE2 \<and> b = CHR 0x80
           \<and> (c \<in> set [CHR 0x80, CHR 0x81, CHR 0x82, CHR 0x83, CHR 0x84, CHR 0x85, CHR 0x86,
                          CHR 0x87, CHR 0x88, CHR 0x89, CHR 0x8A, CHR 0xA8, CHR 0xA9, CHR 0xAF]))
      \<or> (a = CHR 0xE2 \<and> b = CHR 0x81 \<and> c = CHR 0x9F)
      \<or> (a = CHR 0xE3 \<and> b = CHR 0x80 \<and> c = CHR 0x80))"

fun TrimLeftSpace :: "string \<Rightarrow> string" where
  "TrimLeftSpace (a # b # c # s) =
     (if is_ascii_space a then TrimLeftSpace (b # c # s)
      else if is_space2 a b then TrimLeftSpace (c # s)
      else if is_space3 a b c then TrimLeftSpace s
      else a # b # c # s)"
| "TrimLeftSpace [a, b] =
     (if is_ascii_space a then TrimLeftSpace [b]
      else if is_space2 a b then [] else [a, b])"
| "TrimLeftSpace [a] = (if is_ascii_space a then [] else [a])"
| "TrimLeftSpace [] = []"

text \<open>The same scan from the right end, on the reversed string (last byte first).\<close>

fun TrimRightSpaceRev :: "string \<Rightarrow> string" where
  "TrimRightSpaceRev (c # b # a # s) =
     (if is_ascii_space c then TrimRightSpaceRev (b # a # s)
      else if is_space2 b c then TrimRightSpaceRev (a # s)
      else if is_space3 a b c then TrimRightSpaceRev s
      else c # b # a # s)"
| "TrimRightSpaceRev [c, b] =
     (if is_ascii_space c then TrimRightSpaceRev [b]
      else if is_space2 b c then [] else [c, b])"
| "TrimRightSpaceRev [c] = (if is_ascii_space c then [] else [c])"
| "TrimRightSpaceRev [] = []"

definition TrimSpace :: "string \<Rightarrow> string" where
  "TrimSpace s = rev (TrimRightSpaceRev (rev (TrimLeftSpace s)))"

definition HasPrefix :: "string \<Rightarrow> string \<Rightarrow> bool" where
  "HasPrefix s p = (take (length p) s = p)"

fun Contains :: "string \<Rightarrow> string \<Rightarrow> bool" where
  "Contains [] sub = (sub = [])"
| "Contains (c # cs) sub = (HasPrefix (c # cs) sub \<or> Contains cs sub)"

text \<open>\<open>strings.Split(s, sep)\<close> for a one-byte separator: always at least one piece.\<close>

fun Split :: "char \<Rightarrow> string \<Rightarrow> string list" where
  "Split sep [] = [[]]"
| "Split sep (c # cs) =
     (if c = sep then [] # Split sep cs
      else (case Split sep cs of [] \<Rightarrow> [[c]] | x # xs \<Rightarrow> (c # x) # xs))"

fun Join :: "char \<Rightarrow> string list \<Rightarrow> string" where
  "Join sep [] = []"
| "Join sep [x] = x"
| "Join sep (x # y # ys) = x @ sep # Join sep (y # ys)"

text \<open>\<open>strings.SplitN(s, sep, 2)\<close>: one piece when the separator does not occur, else the
  text before the first occurrence and everything after it.\<close>

definition SplitN2 :: "char \<Rightarrow> string \<Rightarrow> string list" where
  "SplitN2 sep s =
     (if sep \<in> set s then [takeWhile (\<lambda>c. c \<noteq> sep) s, tl (dropWhile (\<lambda>c. c \<noteq> sep) s)]
      else [s])"

text \<open>\<open>strings.Repeat(" ", n)\<close> panics on a negative count.\<close>

definition Repeat_sp :: "int \<Rightarrow> string option" where
  "Repeat_sp n = (if n < 0 then None else Some (replicate (nat n) (CHR '' '')))"

section \<open>Line model (yaml\_walker.go)\<close>

record YAMLLine =
  Raw :: string
  Trimmed :: string
  Indent :: int
  IsEmpty :: bool
  IsComment :: bool
  Key :: string
  Value :: string
  HasColon :: bool
  ValueIndent :: int

definition GetIndentation :: "string \<Rightarrow> int" where
  "GetIndentation line = int (length (takeWhile (\<lambda>ch. ch = CHR '' '') line))"

text \<open>\<open>getIndentation\<close> (lower case) is a second copy of the same function.\<close>

definition getIndentation :: "string \<Rightarrow> int" where
  "getIndentation line = int (length (takeWhile (\<lambda>ch. ch = CHR '' '') line))"

definition ParseLine :: "string \<Rightarrow> YAMLLine" where
  "ParseLine line =
     (let trimmed = TrimSpace line;
          indent = GetIndentation line;
          isComment = HasPrefix trimmed ''#'';
          hasColon = Contains trimmed '':'';
          parts = SplitN2 (CHR '':'') trimmed;
          kv = hasColon \<and> \<not> isComment \<and> length parts = 2
      in \<lparr> Raw = line, Trimmed = trimmed, Indent = indent,
           IsEmpty = (trimmed = []), IsComment = isComment,
           Key = (if kv then TrimSpace (parts ! 0) else []),
           Value = (if kv then TrimSpace (parts ! 1) else []),
           HasColon = hasColon,
           ValueIndent = (if kv then int (length (parts ! 1)) - int (length (TrimLeftSpace (parts ! 1)))
                          else 0) \<rparr>)"

definition IsEmptyOrComment :: "string \<Rightarrow> bool" where
  "IsEmptyOrComment line = (let trimmed = TrimSpace line in trimmed = [] \<or> HasPrefix trimmed ''#'')"

subsection \<open>Path stack\<close>

type_synonym PathLevel = "int \<times> string"
type_synonym PathStack = "PathLevel list"

definition NewPathStack :: PathStack where
  "NewPathStack = []"

definition Push :: "PathStack \<Rightarrow> int \<Rightarrow> string \<Rightarrow> PathStack" where
  "Push ps indent key = ps @ [(indent, key)]"

definition PopToIndent :: "PathStack \<Rightarrow> int \<Rightarrow> PathStack" where
  "PopToIndent ps indent = rev (dropWhile (\<lambda>l. fst l \<ge> indent) (rev ps))"

definition CurrentPath :: "PathStack \<Rightarrow> string list" where
  "CurrentPath ps = map snd ps"

definition pathsMatch :: "string list \<Rightarrow> string list \<Rightarrow> bool" where
  "pathsMatch current target = (length current = length target \<and>
      list_all (\<lambda>i. current ! i = target ! i) [0..<length current])"

section \<open>Wrapper pattern detection (values\_parser.go)\<close>

definition KnownWrapperKeys :: "string list" where
  "KnownWrapperKeys = [''_internal_defaults_do_not_set'']"

fun detectWrapperLines :: "string list \<Rightarrow> int" where
  "detectWrapperLines [] = 0"
| "detectWrapperLines (line # rest) =
     (let trimmed = TrimSpace line in
      if trimmed = [] \<or> HasPrefix trimmed ''#'' then detectWrapperLines rest
      else if Contains trimmed '':'' then
        (if getIndentation line = 0
            \<and> TrimSpace (hd (Split (CHR '':'') trimmed)) \<in> set KnownWrapperKeys
         then 2 else 0)
      else detectWrapperLines rest)"

definition detectWrapperPattern :: "string \<Rightarrow> int" where
  "detectWrapperPattern content = detectWrapperLines (Split NL content)"

text \<open>The specification's wording of detection: the first line that is neither blank nor a
  comment and carries a key.\<close>

definition firstKeyLine :: "string list \<Rightarrow> string option" where
  "firstKeyLine ls = find (\<lambda>l. \<not> IsEmptyOrComment l \<and> Contains (TrimSpace l) '':'') ls"

definition childIndentOf :: "string list \<Rightarrow> int option" where
  "childIndentOf ls =
     (case dropWhile (\<lambda>l. \<not> (\<not> IsEmptyOrComment l \<and> Contains (TrimSpace l) '':'')) ls of
        [] \<Rightarrow> None
      | _ # rest \<Rightarrow> map_option getIndentation (find (\<lambda>l. \<not> IsEmptyOrComment l) rest))"

section \<open>Backup of the values file (process\_chart.go)\<close>

text \<open>
  The file system is a partial map from paths to contents, together with the paths on
  which reading or writing fails. \<open>os.Stat\<close> succeeds exactly on the paths that are
  present, and fails with a not-exist error on the others. The path of the values file,
  \<open>filepath.Join(chartPath, "values.yaml")\<close>, is taken as given.
\<close>

record filesys =
  files :: "string \<rightharpoonup> string"
  read_fails :: "string list"
  write_fails :: "string list"

datatype go_error = ErrValuesMissing | ErrRead | ErrWrite

definition os_ReadFile :: "filesys \<Rightarrow> string \<Rightarrow> string option" where
  "os_ReadFile fs p =
     (case files fs p of None \<Rightarrow> None
      | Some c \<Rightarrow> if p \<in> set (read_fails fs) then None else Some c)"

definition os_WriteFile :: "filesys \<Rightarrow> string \<Rightarrow> string \<Rightarrow> filesys option" where
  "os_WriteFile fs p c =
     (if p \<in> set (write_fails fs) then None else Some (fs\<lparr>files := (files fs)(p \<mapsto> c)\<rparr>))"

text \<open>The result is Go's \<open>error\<close> (\<open>None\<close> is \<open>nil\<close>) and the file system afterwards.\<close>

definition backupValuesFile :: "filesys \<Rightarrow> string \<Rightarrow> go_error option \<times> filesys" where
  "backupValuesFile fs valuesPath =
     (let backupPath = valuesPath @ ''.backup'' in
      if files fs valuesPath = None then (Some ErrValuesMissing, fs)
      else if files fs backupPath \<noteq> None then (None, fs)
      else (case os_ReadFile fs valuesPath of
              None \<Rightarrow> (Some ErrRead, fs)
            | Some input \<Rightarrow>
                (case os_WriteFile fs backupPath input of
                   None \<Rightarrow> (Some ErrWrite, fs)
                 | Some fs' \<Rightarrow> (None, fs'))))"

definition restoreValuesFile :: "filesys \<Rightarrow> string \<Rightarrow> go_error option \<times> filesys" where
  "restoreValuesFile fs valuesPath =
     (let backupPath = valuesPath @ ''.backup'' in
      case os_ReadFile fs backupPath of
        None \<Rightarrow> (Some ErrRead, fs)
      | Some input \<Rightarrow>
          (case os_WriteFile fs valuesPath input of
             None \<Rightarrow> (Some ErrWrite, fs)
           | Some fs' \<Rightarrow> (None, fs')))"

text \<open>What a run does to the values file and its backup: it takes the backup, it may restore
  from it, and it writes new contents to the values file (as \<open>UpdateRegistryInValuesFile\<close>
  does with \<open>os.WriteFile(valuesPath, ...)\<close>).\<close>

datatype values_op = OpBackup | OpRestore | OpWriteValues string

fun apply_values_op :: "string \<Rightarrow> filesys \<Rightarrow> values_op \<Rightarrow> filesys" where
  "apply_values_op valuesPath fs OpBackup = snd (backupValuesFile fs valuesPath)"
| "apply_values_op valuesPath fs OpRestore = snd (restoreValuesFile fs valuesPath)"
| "apply_values_op valuesPath fs (OpWriteValues c) =
     (case os_WriteFile fs valuesPath c of None \<Rightarrow> fs | Some fs' \<Rightarrow> fs')"

definition apply_values_ops :: "string \<Rightarrow> filesys \<Rightarrow> values_op list \<Rightarrow> filesys" where
  "apply_values_ops valuesPath fs ops = foldl (apply_values_op valuesPath) fs ops"

section \<open>Existence prober (update-registry.go)\<close>

text \<open>
  One unit of work of \<open>CheckImagesExist\<close>, for one reference. What lies outside the
  program is a parameter: whether the unit obtained a pool slot before the deadline, whether
  \<open>regname.ParseReference\<close> accepts the reference, and whether the HEAD and the GET
  request succeed. The unit returns the value it stores in the result map and the requests
  it sent to the remote store, in order.
\<close>

datatype remote_call = Head string | Get string

record prober_env =
  slot_acquired :: bool
  parse_ok :: "string \<Rightarrow> bool"
  head_ok :: "string \<Rightarrow> bool"
  get_ok :: "string \<Rightarrow> bool"

definition checkImage :: "prober_env \<Rightarrow> string \<Rightarrow> bool \<times> remote_call list" where
  "checkImage env img =
     (if \<not> slot_acquired env then (False, [])
      else if \<not> parse_ok env img then (False, [])
      else if head_ok env img then (True, [Head img])
      else if get_ok env img then (True, [Head img, Get img])
      else if img = ''auto'' then (True, [Head img, Get img])
      else (False, [Head img, Get img]))"

text \<open>
  The call starts one unit per reference and waits for all of them; every unit stores its
  result in the shared map under its own reference. The units are listed, each with its
  environment, in the order in which they store their results; the requests are collected
  unit by unit.
\<close>

fun runUnits :: "(string \<rightharpoonup> bool) \<Rightarrow> (prober_env \<times> string) list
                   \<Rightarrow> (string \<rightharpoonup> bool) \<times> remote_call list" where
  "runUnits results [] = (results, [])"
| "runUnits results ((env, img) # rest) =
     (case checkImage env img of (r, calls) \<Rightarrow>
        (case runUnits (results(img \<mapsto> r)) rest of (results', calls') \<Rightarrow>
           (results', calls @ calls')))"

definition CheckImagesExist :: "(prober_env \<times> string) list
                   \<Rightarrow> (string \<rightharpoonup> bool) \<times> remote_call list" where
  "CheckImagesExist units = runUnits Map.empty units"

text \<open>Two environments: the store answers no request; the deadline fires before a slot
  is free.\<close>

definition store_down_env :: prober_env where
  "store_down_env = \<lparr>slot_acquired = True, parse_ok = (\<lambda>_. True),
                      head_ok = (\<lambda>_. False), get_ok = (\<lambda>_. False)\<rparr>"

definition deadline_env :: prober_env where
  "deadline_env = \<lparr>slot_acquired = False, parse_ok = (\<lambda>_. True),
                    head_ok = (\<lambda>_. True), get_ok = (\<lambda>_. True)\<rparr>"

text \<open>Two states of a chart directory: only the backup is left; a fresh chart.\<close>

definition fs_backup_only :: filesys where
  "fs_backup_only = \<lparr>files = [''chart/values.yaml.backup'' \<mapsto> ''a: 1''],
                       read_fails = [], write_fails = []\<rparr>"

definition fs_fresh :: filesys where
  "fs_fresh = \<lparr>files = [''chart/values.yaml'' \<mapsto> ''a: 1''],
                 read_fails = [], write_fails = []\<rparr>"

section \<open>YAML values and the YAML library\<close>

text \<open>
  The values \<open>yaml.Unmarshal\<close> produces for an untyped target: nil, bool, int, float64,
  string, \<open>[]interface{}\<close> and \<open>map[interface{}]interface{}\<close>. A float is kept as the
  text \<open>%v\<close> prints for it; a map lists its entries in the order in which \<open>fmt\<close> prints
  them.
\<close>

datatype yval = YNull | YBool bool | YInt int | YFloat string | YStr string
  | YSeq "yval list" | YMap "(yval \<times> yval) list"

text \<open>A document unmarshalled into \<open>map[string]interface{}\<close>.\<close>

type_synonym ymap = "(string \<times> yval) list"

text \<open>
  The library gopkg.in/yaml.v2 is not part of the program; the engine is modelled for an
  arbitrary library \<open>Y\<close>: \<open>Unmarshal Y s\<close> is \<open>None\<close> when \<open>yaml.Unmarshal\<close> returns an
  error, and \<open>Marshal Y m\<close> is the text \<open>yaml.Marshal\<close> returns.
\<close>

record yaml_lib =
  Unmarshal :: "string \<Rightarrow> ymap option"
  Marshal :: "ymap \<Rightarrow> string"

fun show_nat :: "nat \<Rightarrow> string" where
  "show_nat n = (if n < 10 then [''0123456789'' ! n]
                 else show_nat (n div 10) @ [''0123456789'' ! (n mod 10)])"

definition show_int :: "int \<Rightarrow> string" where
  "show_int i = (if i < 0 then CHR ''-'' # show_nat (nat (- i)) else show_nat (nat i))"

text \<open>\<open>fmt.Sprintf("%v", v)\<close>.\<close>

fun Sprintf_v :: "yval \<Rightarrow> string" where
  "Sprintf_v YNull = ''<nil>''"
| "Sprintf_v (YBool b) = (if b then ''true'' else ''false'')"
| "Sprintf_v (YInt i) = show_int i"
| "Sprintf_v (YFloat s) = s"
| "Sprintf_v (YStr s) = s"
| "Sprintf_v (YSeq xs) = ''['' @ Join (CHR '' '') (map Sprintf_v xs) @ '']''"
| "Sprintf_v (YMap kvs) =
     ''map['' @ Join (CHR '' '') (map (\<lambda>(k, v). Sprintf_v k @ '':'' @ Sprintf_v v) kvs) @ '']''"

section \<open>Block helpers (values\_helpers.go and its later version)\<close>

text \<open>One block of \<open>injectBlockLines\<close>; \<open>None\<close> is the panic of \<open>strings.Repeat\<close> on a
  negative count.\<close>

fun indentBlockLines :: "int \<Rightarrow> int \<Rightarrow> string list \<Rightarrow> string list option" where
  "indentBlockLines indent baseBlockIndent [] = Some []"
| "indentBlockLines indent baseBlockIndent (blockLine # others) =
     (let lineIndent = GetIndentation blockLine;
          trimmedBlock = TrimSpace blockLine;
          relativeIndent = lineIndent - baseBlockIndent
      in case Repeat_sp (indent + relativeIndent) of
           None \<Rightarrow> None
         | Some sp \<Rightarrow>
             (case indentBlockLines indent baseBlockIndent others of
                None \<Rightarrow> None
              | Some r \<Rightarrow> Some ((sp @ trimmedBlock) # r)))"

definition injectBlock :: "int \<Rightarrow> string \<Rightarrow> string list option" where
  "injectBlock indent block =
     (let blockLines = Split NL (TrimSpace block) in
      if length blockLines = 1 then
        (case Repeat_sp indent of
           None \<Rightarrow> None
         | Some sp \<Rightarrow> Some [sp @ TrimSpace (blockLines ! 0)])
      else indentBlockLines indent (GetIndentation (blockLines ! 1)) (tl blockLines))"

fun injectBlockLines :: "string list \<Rightarrow> int \<Rightarrow> string \<Rightarrow> string list option" where
  "injectBlockLines [] indent key = Some []"
| "injectBlockLines (block # blocks) indent key =
     (case injectBlock indent block of
        None \<Rightarrow> None
      | Some ls \<Rightarrow>
          (case injectBlockLines blocks indent key of
             None \<Rightarrow> None
           | Some r \<Rightarrow> Some (ls @ r)))"



definition isComplexNestedBlock :: "yaml_lib \<Rightarrow> string \<Rightarrow> string list \<Rightarrow> bool" where
  "isComplexNestedBlock Y key injectedBlocks =
     list_ex (\<lambda>block. case Unmarshal Y block of
                         None \<Rightarrow> False
                       | Some blockData \<Rightarrow>
                           (case map_of blockData key of
                              Some (YMap m) \<Rightarrow> True
                            | _ \<Rightarrow> False)) injectedBlocks"

definition isListBasedBlock :: "yaml_lib \<Rightarrow> string \<Rightarrow> string list \<Rightarrow> bool" where
  "isListBasedBlock Y key injectedBlocks =
     (key = ''tolerations'' \<or>
      list_ex (\<lambda>block. case Unmarshal Y block of
                         None \<Rightarrow> False
                       | Some blockData \<Rightarrow>
                           (case map_of blockData key of
                              Some (YSeq xs) \<Rightarrow> True
                            | _ \<Rightarrow> False)) injectedBlocks)"

definition isSingleLineScalar :: "string list \<Rightarrow> string \<Rightarrow> bool" where
  "isSingleLineScalar blocks key =
     (blocks \<noteq> [] \<and>
      list_all (\<lambda>block. let blockLines = Split NL (TrimSpace block) in
                          length blockLines = 1
                          \<and> HasPrefix (TrimSpace (blockLines ! 0)) (key @ '':'')) blocks)"

subsection \<open>Merging tolerations\<close>

definition toleration_fields :: "string list" where
  "toleration_fields = [''key'', ''operator'', ''effect'', ''value'', ''tolerationSeconds'']"

text \<open>For every identity field: the two maps both have it or both lack it
  (\<open>aHas != bHas\<close> gives \<open>false\<close>), and when they have it the values print alike.\<close>

definition tolerationsMatch :: "ymap \<Rightarrow> ymap \<Rightarrow> bool" where
  "tolerationsMatch a b =
     list_all (\<lambda>field.
        case (map_of a field, map_of b field) of
          (None, None) \<Rightarrow> True
        | (Some aVal, Some bVal) \<Rightarrow> \<not> (Sprintf_v aVal \<noteq> Sprintf_v bVal)
        | _ \<Rightarrow> False) toleration_fields"

text \<open>The conversion of a \<open>map[interface{}]interface{}\<close> to string keys: entries whose
  key is not a string are left out.\<close>

fun stringKeys :: "(yval \<times> yval) list \<Rightarrow> ymap" where
  "stringKeys [] = []"
| "stringKeys ((YStr k, v) # kvs) = (k, v) # stringKeys kvs"
| "stringKeys (_ # kvs) = stringKeys kvs"

text \<open>The items of the \<open>tolerations\<close> list of a parsed document that are maps.\<close>

fun mapItems :: "yval list \<Rightarrow> (yval \<times> yval) list list" where
  "mapItems [] = []"
| "mapItems (YMap tolMap # tols) = tolMap # mapItems tols"
| "mapItems (_ # tols) = mapItems tols"

definition tolerationList :: "ymap \<Rightarrow> (yval \<times> yval) list list" where
  "tolerationList doc =
     (case map_of doc ''tolerations'' of Some (YSeq tolList) \<Rightarrow> mapItems tolList | _ \<Rightarrow> [])"

text \<open>
  The loops of the engine that walk forward from line \<open>i + 1\<close> are modelled on
  \<open>rest = lines[i+1:]\<close>; they return the number of lines they passed, so that the index
  \<open>j\<close> of the source is \<open>i + 1\<close> plus that number.
\<close>

fun collectTolerations :: "int \<Rightarrow> string list \<Rightarrow> string list \<times> string list \<times> nat" where
  "collectTolerations actualIndent [] = ([], [], 0)"
| "collectTolerations actualIndent (nextLine # rest) =
     (let nextIndent = getIndentation nextLine;
          nextTrimmed = TrimSpace nextLine
      in if nextTrimmed = [] \<or> HasPrefix nextTrimmed ''#'' then
           (case collectTolerations actualIndent rest of
              (copied, existingContent, n) \<Rightarrow> (nextLine # copied, existingContent, Suc n))
         else if nextIndent \<le> actualIndent then ([], [], 0)
         else
           (case collectTolerations actualIndent rest of
              (copied, existingContent, n) \<Rightarrow>
                (nextLine # copied, nextLine # existingContent, Suc n)))"

definition existingTolerations :: "yaml_lib \<Rightarrow> string list \<Rightarrow> ymap list" where
  "existingTolerations Y existingContent =
     (let existingYaml = ''tolerations:'' @ [NL] @ Join NL existingContent in
      case Unmarshal Y existingYaml of
        None \<Rightarrow> []
      | Some doc \<Rightarrow> map stringKeys (tolerationList doc))"

definition newTolerations :: "yaml_lib \<Rightarrow> ymap list \<Rightarrow> string list \<Rightarrow> (yval \<times> yval) list list" where
  "newTolerations Y existingParsed blocks =
     concat (map (\<lambda>block.
        case Unmarshal Y block of
          None \<Rightarrow> []
        | Some blockData \<Rightarrow>
            filter (\<lambda>tolMap. \<not> list_ex (\<lambda>existing. tolerationsMatch existing (stringKeys tolMap))
                                     existingParsed)
                   (tolerationList blockData)) blocks)"

text \<open>The results are the new \<open>result\<close> slice, the number of lines passed, \<open>modified\<close> and
  \<open>actuallyInjected\<close>.\<close>

definition mergeTolerations ::
  "yaml_lib \<Rightarrow> string list \<Rightarrow> string list \<Rightarrow> int \<Rightarrow> string list \<Rightarrow> string
     \<Rightarrow> (string list \<times> nat \<times> bool \<times> bool) option" where
  "mergeTolerations Y rest result actualIndent blocks line =
     (case collectTolerations actualIndent rest of
        (copied, existingContent, n) \<Rightarrow>
          (let result1 = (result @ [line]) @ copied;
               existingParsed = existingTolerations Y existingContent;
               newTolerationsToAdd = newTolerations Y existingParsed blocks
           in if length newTolerationsToAdd > 0 then
                (let blockStr = Marshal Y [(''tolerations'', YSeq (map YMap newTolerationsToAdd))] in
                 case injectBlockLines [blockStr] (actualIndent + 2) ''tolerations'' of
                   None \<Rightarrow> None
                 | Some injected \<Rightarrow> Some (result1 @ injected, n, True, True))
              else Some (result1, n, False, True)))"

subsection \<open>Nested maps\<close>

fun scanNestedBlock :: "int \<Rightarrow> bool \<Rightarrow> string list \<Rightarrow> string list \<times> bool \<times> nat" where
  "scanNestedBlock actualIndent replaceContent [] = ([], False, 0)"
| "scanNestedBlock actualIndent replaceContent (nextLine # rest) =
     (let nextIndent = getIndentation nextLine;
          nextTrimmed = TrimSpace nextLine
      in if nextTrimmed = [] \<or> HasPrefix nextTrimmed ''#'' then
           (case scanNestedBlock actualIndent replaceContent rest of
              (kept, hasExistingContent, n) \<Rightarrow>
                ((if \<not> replaceContent then [nextLine] else []) @ kept, hasExistingContent, Suc n))
         else if nextIndent \<le> actualIndent then ([], False, 0)
         else
           (case scanNestedBlock actualIndent replaceContent rest of
              (kept, hasExistingContent, n) \<Rightarrow>
                ((if \<not> replaceContent then [nextLine] else []) @ kept, True, Suc n)))"

definition handleComplexNestedBlock ::
  "string list \<Rightarrow> string list \<Rightarrow> int \<Rightarrow> string list \<Rightarrow> YAMLLine \<Rightarrow> bool
     \<Rightarrow> (string list \<times> nat \<times> bool \<times> bool) option" where
  "handleComplexNestedBlock rest result actualIndent blocks yl replaceContent =
     (case scanNestedBlock actualIndent replaceContent rest of
        (kept, hasExistingContent, n) \<Rightarrow>
          (let result1 = result @ kept in
           if replaceContent then
             (case Repeat_sp actualIndent of
                None \<Rightarrow> None
              | Some sp \<Rightarrow>
                  (case injectBlockLines blocks (actualIndent + 2) (Key yl) of
                     None \<Rightarrow> None
                   | Some injected \<Rightarrow>
                       Some ((result1 @ [sp @ Key yl @ '':'']) @ injected, n, True, True)))
           else if \<not> hasExistingContent then
             (case injectBlockLines blocks (actualIndent + 2) (Key yl) of
                None \<Rightarrow> None
              | Some injected \<Rightarrow> Some (result1 @ injected, n, True, True))
           else Some (result1, n, False, False)))"

section \<open>The values patch engine (injectBlockIntoValuesPath)\<close>

definition podConfigKeys :: "string list" where
  "podConfigKeys = [''annotations'', ''tolerations'', ''affinity'', ''nodeSelector'',
                    ''priorityClassName'']"

record ValueReference =
  Path :: "string list"
  RefKey :: string

text \<open>The variables of the scan: the output lines, the path stack and the two flags.\<close>

record scan_state =
  result :: "string list"
  pathStack :: PathStack
  modified :: bool
  actuallyInjected :: bool

text \<open>The look-ahead for content that already follows an empty key.\<close>

fun hasExistingContent :: "int \<Rightarrow> string list \<Rightarrow> bool" where
  "hasExistingContent ylIndent [] = False"
| "hasExistingContent ylIndent (nextLine # rest) =
     (let nextIndent = getIndentation nextLine;
          nextTrimmed = TrimSpace nextLine
      in if nextTrimmed = [] \<or> HasPrefix nextTrimmed ''#'' then hasExistingContent ylIndent rest
         else if nextIndent = ylIndent \<and> HasPrefix nextTrimmed ''- '' then True
         else if nextIndent \<le> ylIndent then False
         else True)"

text \<open>The flags after a handler has returned.\<close>

definition afterHandler ::
  "scan_state \<Rightarrow> (string list \<times> nat \<times> bool \<times> bool) option \<Rightarrow> (scan_state \<times> nat) option" where
  "afterHandler st r =
     (case r of
        None \<Rightarrow> None
      | Some (result', n, modifiedH, injectedH) \<Rightarrow>
          Some (st\<lparr>result := result', modified := (modified st \<or> modifiedH),
                   actuallyInjected := (actuallyInjected st \<or> injectedH)\<rparr>, n))"

text \<open>An empty value and no existing content: the key line is rewritten and the blocks
  follow it.\<close>

definition injectEmpty :: "string list \<Rightarrow> YAMLLine \<Rightarrow> scan_state \<Rightarrow> (scan_state \<times> nat) option" where
  "injectEmpty blocks yl st =
     (case Repeat_sp (Indent yl) of
        None \<Rightarrow> None
      | Some sp \<Rightarrow>
          (let indentAdd = (if Key yl = ''tolerations'' then 0 else 2) in
           case injectBlockLines blocks (indentAdd + Indent yl) (Key yl) of
             None \<Rightarrow> None
           | Some injected \<Rightarrow>
               Some (st\<lparr>result := (result st @ [sp @ Key yl @ '':'']) @ injected,
                        modified := True, actuallyInjected := True\<rparr>, 0)))"

text \<open>
  The body of the scan for a line whose path equals the target path. \<open>rest\<close> holds the
  lines after it; the second component of the result is the number of those lines that the
  handlers have passed, after which the scan goes on.
\<close>

definition matchedLine ::
  "yaml_lib \<Rightarrow> string list \<Rightarrow> string \<Rightarrow> YAMLLine \<Rightarrow> string list \<Rightarrow> scan_state
     \<Rightarrow> (scan_state \<times> nat) option" where
  "matchedLine Y blocks line yl rest st =
     (let isEmpty = (Value yl = [] \<or> Value yl = ''[]'' \<or> Value yl = ''{}'') in
      if isEmpty then
        (let isComplexNested = isComplexNestedBlock Y (Key yl) blocks in
         if (Key yl \<in> set podConfigKeys \<or> isComplexNested)
            \<and> hasExistingContent (Indent yl) rest
            \<and> Key yl = ''tolerations'' then
           afterHandler st (mergeTolerations Y rest (result st) (Indent yl) blocks line)
         else if (Key yl \<in> set podConfigKeys \<or> isComplexNested)
            \<and> hasExistingContent (Indent yl) rest
            \<and> (Key yl = ''affinity'' \<or> isComplexNestedBlock Y (Key yl) blocks) then
           afterHandler st (handleComplexNestedBlock rest (result st) (Indent yl) blocks yl True)
         else injectEmpty blocks yl st)
      else if \<not> isComplexNestedBlock Y (Key yl) blocks \<and> \<not> isListBasedBlock Y (Key yl) blocks then
        (case injectBlockLines blocks (Indent yl) (Key yl) of
           None \<Rightarrow> None
         | Some injected \<Rightarrow>
             if length injected > 0 then
               Some (st\<lparr>result := result st @ injected, modified := True,
                        actuallyInjected := True\<rparr>, 0)
             else Some (st\<lparr>result := result st @ [line]\<rparr>, 0))
      else if Key yl = ''tolerations'' then
        afterHandler st (mergeTolerations Y rest (result st @ [line]) (Indent yl) blocks line)
      else if Key yl = ''affinity'' \<or> isComplexNestedBlock Y (Key yl) blocks then
        afterHandler st
          (handleComplexNestedBlock rest (result st @ [line]) (Indent yl) blocks yl False)
      else Some (st\<lparr>result := result st @ [line]\<rparr>, 0))"

text \<open>The scan over the lines from index \<open>i\<close> on.\<close>

fun scanLines ::
  "yaml_lib \<Rightarrow> string list \<Rightarrow> string list \<Rightarrow> int \<Rightarrow> string list \<Rightarrow> scan_state
     \<Rightarrow> scan_state option" where
  "scanLines Y path blocks indentOffset [] st = Some st"
| "scanLines Y path blocks indentOffset (line # rest) st =
     (let yl = ParseLine line in
      if IsEmpty yl \<or> IsComment yl then
        scanLines Y path blocks indentOffset rest (st\<lparr>result := result st @ [line]\<rparr>)
      else if indentOffset > 0 \<and> Indent yl = 0 \<and> HasColon yl \<and> Key yl \<in> set KnownWrapperKeys then
        scanLines Y path blocks indentOffset rest (st\<lparr>result := result st @ [line]\<rparr>)
      else
        (let indent = (if indentOffset > 0 \<and> Indent yl \<ge> indentOffset
                       then Indent yl - indentOffset else Indent yl);
             popped = PopToIndent (pathStack st) indent
         in if HasColon yl then
              (let pushed = Push popped indent (Key yl) in
               if pathsMatch (CurrentPath pushed) path then
                 (case matchedLine Y blocks line yl rest (st\<lparr>pathStack := pushed\<rparr>) of
                    None \<Rightarrow> None
                  | Some (st', n) \<Rightarrow> scanLines Y path blocks indentOffset (drop n rest) st')
               else scanLines Y path blocks indentOffset rest
                      (st\<lparr>pathStack := pushed, result := result st @ [line]\<rparr>))
            else scanLines Y path blocks indentOffset rest
                   (st\<lparr>pathStack := popped, result := result st @ [line]\<rparr>)))"

text \<open>The section appended for a root key that the scan has not injected.\<close>

definition appendRootKey :: "string list \<Rightarrow> string list \<Rightarrow> int \<Rightarrow> string list \<Rightarrow> string list option" where
  "appendRootKey path blocks indentOffset res =
     (let key = path ! 0;
          res1 = (if length res > 0 \<and> TrimSpace (last res) \<noteq> [] then res @ [[]] else res);
          keyIndent = indentOffset
      in if isSingleLineScalar blocks key then
           (case injectBlockLines blocks keyIndent key of
              None \<Rightarrow> None
            | Some injected \<Rightarrow> Some (res1 @ injected))
         else
           (case Repeat_sp keyIndent of
              None \<Rightarrow> None
            | Some sp \<Rightarrow>
                (case injectBlockLines blocks (2 + indentOffset) key of
                   None \<Rightarrow> None
                 | Some injected \<Rightarrow> Some ((res1 @ [sp @ key @ '':'']) @ injected))))"

text \<open>The result is the new content with the flags \<open>modified\<close> and \<open>actuallyInjected\<close>;
  \<open>None\<close> is a panic.\<close>

definition injectBlockIntoValuesPath ::
  "yaml_lib \<Rightarrow> string \<Rightarrow> ValueReference \<Rightarrow> string list \<Rightarrow> int \<Rightarrow> (string \<times> bool \<times> bool) option" where
  "injectBlockIntoValuesPath Y content ref blocks indentOffset =
     (case scanLines Y (Path ref) blocks indentOffset (Split NL content)
             \<lparr>result = [], pathStack = NewPathStack, modified = False, actuallyInjected = False\<rparr> of
        None \<Rightarrow> None
      | Some st \<Rightarrow>
          if \<not> actuallyInjected st \<and> length (Path ref) = 1 then
            (case appendRootKey (Path ref) blocks indentOffset (result st) of
               None \<Rightarrow> None
             | Some res \<Rightarrow> Some (Join NL res, True, True))
          else Some (Join NL (result st), modified st, actuallyInjected st))"

subsection \<open>Root keys and the end of the wrapper\<close>





section \<open>Root-level new values (custom\_values\_mod.go)\<close>

















section \<open>In-place pod specification injector (custom\_scheme\_mods.go)\<close>


































section \<open>Notions used to state the claims\<close>







section \<open>Example data\<close>

text \<open>
  A candidate block as \<open>loadInjectorBlocks\<close> produces it (the output of \<open>yaml.Marshal\<close>),
  and the YAML library on the documents of the examples: each row gives the value that
  yaml.v2 returns for the document on its left.
\<close>

definition ex_block :: string where
  "ex_block = Join NL [''tolerations:'', ''- effect: NoSchedule'', ''  key: dedicated'',
                       ''  operator: Exists'', '''']"

definition ex_tol :: "(yval \<times> yval) list" where
  "ex_tol = [(YStr ''effect'', YStr ''NoSchedule''), (YStr ''key'', YStr ''dedicated''),
             (YStr ''operator'', YStr ''Exists'')]"

definition ex_affinity_block :: string where
  "ex_affinity_block = Join NL [''affinity:'', ''  nodeAffinity:'', ''    zone: a'', '''']"

definition ex_app_block :: string where
  "ex_app_block = Join NL [''app:'', ''  replicas: 2'', '''']"

text \<open>Every other document of the examples is one that yaml.v2 rejects, for a flow sequence
  that is not closed: \<open>app: [unclosed\<close>, \<open>replicas: [\<close> and the \<open>tolerations:\<close> list with
  the item \<open>- effect: [unclosed\<close>.\<close>

definition ex_Unmarshal :: "string \<Rightarrow> ymap option" where
  "ex_Unmarshal s =
     (if s = ex_block then Some [(''tolerations'', YSeq [YMap ex_tol])]
      else if s = Join NL [''tolerations:'', ''- effect: NoSchedule'', ''  key: dedicated'',
                           ''  operator: Exists'']
        then Some [(''tolerations'', YSeq [YMap ex_tol])]
      else if s = Join NL [''tolerations:'', ''  - effect: NoSchedule'', ''    key: dedicated'',
                           ''    operator: Exists'']
        then Some [(''tolerations'', YSeq [YMap ex_tol])]
      else if s = Join NL [''tolerations:'', '''']
        then Some [(''tolerations'', YNull)]
      else if s = ex_affinity_block
        then Some [(''affinity'', YMap [(YStr ''nodeAffinity'', YMap [(YStr ''zone'', YStr ''a'')])])]
      else if s = ex_app_block
        then Some [(''app'', YMap [(YStr ''replicas'', YInt 2)])]
      else None)"

definition ex_Marshal :: "ymap \<Rightarrow> string" where
  "ex_Marshal m = (if m = [(''tolerations'', YSeq [YMap ex_tol])] then ex_block else [])"

definition ex_yaml :: yaml_lib where
  "ex_yaml = \<lparr>Unmarshal = ex_Unmarshal, Marshal = ex_Marshal\<rparr>"

definition tol_ref :: ValueReference where
  "tol_ref = \<lparr>Path = [''tolerations''], RefKey = ''tolerations''\<rparr>"

definition affinity_ref :: ValueReference where
  "affinity_ref = \<lparr>Path = [''affinity''], RefKey = ''affinity''\<rparr>"




definition fs_broken_values :: filesys where
  "fs_broken_values = \<lparr>files = [''chart/values.yaml'' \<mapsto> ''app: [unclosed''],
                         read_fails = [], write_fails = []\<rparr>"



section \<open>Auxiliary facts\<close>


lemma detectWrapperLines_find:
  "detectWrapperLines ls =
     (case firstKeyLine ls of None \<Rightarrow> 0
      | Some l \<Rightarrow> if getIndentation l = 0
                     \<and> TrimSpace (hd (Split (CHR '':'') (TrimSpace l))) \<in> set KnownWrapperKeys
                  then 2 else 0)"
proof (induction ls)
  case Nil
  show ?case by (simp add: firstKeyLine_def)
next
  case (Cons l ls)
  show ?case
  proof (cases "IsEmptyOrComment l \<or> \<not> Contains (TrimSpace l) '':''")
    case True
    then have "firstKeyLine (l # ls) = firstKeyLine ls"
      by (auto simp: firstKeyLine_def)
    moreover from True have "detectWrapperLines (l # ls) = detectWrapperLines ls"
      by (auto simp: IsEmptyOrComment_def Let_def)
    ultimately show ?thesis using Cons.IH by simp
  next
    case False
    then have "firstKeyLine (l # ls) = Some l"
      by (auto simp: firstKeyLine_def)
    moreover from False have "detectWrapperLines (l # ls) =
       (if getIndentation l = 0
           \<and> TrimSpace (hd (Split (CHR '':'') (TrimSpace l))) \<in> set KnownWrapperKeys
        then 2 else 0)"
      by (auto simp: IsEmptyOrComment_def Let_def)
    ultimately show ?thesis by simp
  qed
qed

lemma op_keeps_backup:
  "files fs (valuesPath @ ''.backup'') = Some b \<Longrightarrow>
   files (apply_values_op valuesPath fs op) (valuesPath @ ''.backup'') = Some b"
  by (cases op)
     (auto simp: backupValuesFile_def restoreValuesFile_def os_WriteFile_def os_ReadFile_def
        Let_def split: option.splits if_splits)

lemma ops_keep_backup:
  "files fs (valuesPath @ ''.backup'') = Some b \<Longrightarrow>
   files (apply_values_ops valuesPath fs ops) (valuesPath @ ''.backup'') = Some b"
  unfolding apply_values_ops_def
  by (induction ops arbitrary: fs) (auto simp: op_keeps_backup)

lemma checkImage_auto_slot:
  "slot_acquired env \<Longrightarrow> parse_ok env ''auto'' \<Longrightarrow>
     fst (checkImage env ''auto'') \<and> Head ''auto'' \<in> set (snd (checkImage env ''auto''))"
  by (simp add: checkImage_def)

lemma runUnits_auto:
  "(\<forall>(e, i) \<in> set units. i = ''auto'' \<longrightarrow> slot_acquired e \<and> parse_ok e i) \<Longrightarrow>
   fst (runUnits results units) ''auto'' =
     (if ''auto'' \<in> snd ` set units then Some True else results ''auto'')
   \<and> (''auto'' \<in> snd ` set units \<longrightarrow> Head ''auto'' \<in> set (snd (runUnits results units)))"
proof (induction units arbitrary: results)
  case Nil
  show ?case by simp
next
  case (Cons u units)
  obtain e i where u: "u = (e, i)" by (cases u)
  obtain r calls where c: "checkImage e i = (r, calls)" by (cases "checkImage e i")
  obtain res' calls' where rr: "runUnits (results(i \<mapsto> r)) units = (res', calls')"
    by (cases "runUnits (results(i \<mapsto> r)) units")
  from Cons.prems have rest:
    "\<forall>(e, i) \<in> set units. i = ''auto'' \<longrightarrow> slot_acquired e \<and> parse_ok e i"
    by (simp add: u)
  have IH: "res' ''auto'' =
     (if ''auto'' \<in> snd ` set units then Some True else (results(i \<mapsto> r)) ''auto'')
     \<and> (''auto'' \<in> snd ` set units \<longrightarrow> Head ''auto'' \<in> set calls')"
    using Cons.IH [OF rest, of "results(i \<mapsto> r)"] unfolding rr by simp
  have step: "runUnits results (u # units) = (res', calls @ calls')"
    by (simp add: u c rr)
  show ?case
  proof (cases "i = ''auto''")
    case True
    with Cons.prems u have "slot_acquired e" "parse_ok e ''auto''" by auto
    from checkImage_auto_slot [OF this] c True have "r" "Head ''auto'' \<in> set calls" by auto
    with IH True show ?thesis unfolding step by (simp add: u)
  next
    case False
    with IH show ?thesis unfolding step by (simp add: u)
  qed
qed

subsection \<open>Strings\<close>

lemma Split_not_Nil [simp]: "Split sep s \<noteq> []"
  by (induction s) (auto split: list.splits)

lemma Join_Split [simp]: "Join sep (Split sep s) = s"
proof (induction s)
  case Nil show ?case by simp
next
  case (Cons c cs)
  obtain x xs where sp: "Split sep cs = x # xs" by (cases "Split sep cs") auto
  with Cons show ?case by (cases xs) auto
qed

lemma GetIndentation_nonneg [simp]: "0 \<le> GetIndentation l"
  by (simp add: GetIndentation_def)

lemma getIndentation_nonneg [simp]: "0 \<le> getIndentation l"
  by (simp add: getIndentation_def)

subsection \<open>Blocks\<close>



subsection \<open>The scan\<close>



subsection \<open>Blocks that do not parse\<close>





subsection \<open>The pod specification\<close>





subsection \<open>The two versions of \<open>injectBlockLines\<close>\<close>




subsection \<open>What \<open>mergeTolerations\<close> does with the items it has collected\<close>

lemma newTolerations_sound:
  "tolMap \<in> set (newTolerations Y existingParsed blocks) \<Longrightarrow>
   \<not> list_ex (\<lambda>existing. tolerationsMatch existing (stringKeys tolMap)) existingParsed"
  by (auto simp: newTolerations_def split: option.splits)

lemma newTolerations_complete:
  "block \<in> set blocks \<Longrightarrow> Unmarshal Y block = Some blockData \<Longrightarrow>
   tolMap \<in> set (tolerationList blockData) \<Longrightarrow>
   \<not> list_ex (\<lambda>existing. tolerationsMatch existing (stringKeys tolMap)) existingParsed \<Longrightarrow>
   tolMap \<in> set (newTolerations Y existingParsed blocks)"
  by (force simp: newTolerations_def)

lemma mergeTolerations_handled:
  "mergeTolerations Y rest res actualIndent blocks line = Some (r, n, m, handled) \<Longrightarrow> handled"
  by (auto simp: mergeTolerations_def Let_def split: prod.splits if_splits option.splits)

text \<open>The collecting loop passes over lines that are blank, comments, or indented deeper
  than the key, and collects the latter: items at the key's own indentation are never
  collected.\<close>

lemma collectTolerations_deeper:
  "collectTolerations actualIndent rest = (copied, existingContent, n) \<Longrightarrow>
   copied = take n rest \<and> n \<le> length rest
   \<and> existingContent = filter (\<lambda>l. \<not> IsEmptyOrComment l) (take n rest)
   \<and> (\<forall>l \<in> set existingContent. actualIndent < getIndentation l)"
proof (induction rest arbitrary: copied existingContent n)
  case Nil then show ?case by simp
next
  case (Cons l rest)
  obtain c e k where r: "collectTolerations actualIndent rest = (c, e, k)"
    by (cases "collectTolerations actualIndent rest")
  from Cons.IH [OF r] Cons.prems r show ?case
    by (auto simp: Let_def IsEmptyOrComment_def split: if_splits)
qed

text \<open>When the first line of content after the key is not indented deeper than the key,
  the merge sees none of the lines that follow.\<close>

lemma mergeTolerations_same_indent:
  "\<not> IsEmptyOrComment l \<Longrightarrow> getIndentation l \<le> actualIndent \<Longrightarrow>
   mergeTolerations Y (l # rest) res actualIndent blocks line
     = mergeTolerations Y [] res actualIndent blocks line"
  by (simp add: mergeTolerations_def IsEmptyOrComment_def Let_def)

subsection \<open>What \<open>handleComplexNestedBlock\<close> passes over in replace mode\<close>

text \<open>In replace mode none of the lines passed is kept; the lines passed are all blank
  lines, comments and deeper lines up to the next line of content at the key's indentation
  or less.\<close>

lemma scanNestedBlock_replace:
  "scanNestedBlock actualIndent True rest = (kept, hasContent, n) \<Longrightarrow>
   kept = [] \<and> n \<le> length rest
   \<and> (\<forall>l \<in> set (take n rest). IsEmptyOrComment l \<or> actualIndent < getIndentation l)
   \<and> (n < length rest \<longrightarrow>
         \<not> IsEmptyOrComment (rest ! n) \<and> getIndentation (rest ! n) \<le> actualIndent)"
proof (induction rest arbitrary: kept hasContent n)
  case Nil then show ?case by simp
next
  case (Cons l rest)
  obtain k h m where r: "scanNestedBlock actualIndent True rest = (k, h, m)"
    by (cases "scanNestedBlock actualIndent True rest")
  from Cons.IH [OF r] Cons.prems r show ?case
    by (auto simp: Let_def IsEmptyOrComment_def split: if_splits)
qed

section \<open>Claims\<close>

subsection \<open>C1: idempotence of the values patch engine\<close>

text \<open>
  C1 says that patching a patched document changes nothing. The code does not achieve this
  for the document \<open>tolerations: []\<close>: the first patch writes the list items at the
  indentation of the key; on the second patch the look-ahead of the scan recognises these
  items as existing content and calls \<open>mergeTolerations\<close>, whose own loop stops at the
  first line that is not indented deeper than the key, sees no existing item, and appends the
  candidate again, two columns deeper and in front of the item written before.
\<close>

theorem C1_second_patch_differs:
  "injectBlockIntoValuesPath ex_yaml ''tolerations: []'' tol_ref [ex_block] 0
     = Some (Join NL [''tolerations:'', ''- effect: NoSchedule'', ''  key: dedicated'',
                      ''  operator: Exists''], True, True)
   \<and> injectBlockIntoValuesPath ex_yaml
        (Join NL [''tolerations:'', ''- effect: NoSchedule'', ''  key: dedicated'',
                  ''  operator: Exists'']) tol_ref [ex_block] 0
     = Some (Join NL [''tolerations:'', ''  - effect: NoSchedule'', ''    key: dedicated'',
                      ''    operator: Exists'', ''- effect: NoSchedule'', ''  key: dedicated'',
                      ''  operator: Exists''], True, True)"
  by code_simp

subsection \<open>C2: lines that are not replaced are copied verbatim\<close>

text \<open>
  C2 says that every line that is not semantically replaced, comments and blank lines
  included, reaches the output verbatim. When the engine replaces the subtree of a key with a
  nested-map block, \<open>handleComplexNestedBlock\<close> passes over every blank line and comment
  up to the next line at the key's indentation, and in replace mode none of them is copied:
  the blank line and the comment that introduce the next section are lost with the subtree.
\<close>

theorem C2_comment_of_next_section_dropped:
  "injectBlockIntoValuesPath ex_yaml
      (Join NL [''affinity:'', ''  old: 1'', '''', ''# Other config'', ''other: 2''])
      affinity_ref [ex_affinity_block] 0
     = Some (Join NL [''affinity:'', ''  nodeAffinity:'', ''    zone: a'', ''other: 2''],
             True, True)"
  by code_simp

subsection \<open>C3: merging into an existing tolerations list\<close>

text \<open>
  C3 says that a candidate structurally equal to an existing item is never appended. For a
  list whose items stand at the indentation of the key (the layout the engine itself writes
  for an empty \<open>tolerations\<close> key) \<open>mergeTolerations\<close> collects no existing item, because
  its loop stops at the first line that is not indented deeper than the key: the candidate,
  equal to the existing item on all identity fields, is appended.
\<close>

theorem C3_equal_candidate_appended:
  "map_option tolerationList (Unmarshal ex_yaml
      (Join NL [''tolerations:'', ''- effect: NoSchedule'', ''  key: dedicated'',
                ''  operator: Exists''])) = Some [ex_tol]
   \<and> map_option tolerationList (Unmarshal ex_yaml ex_block) = Some [ex_tol]
   \<and> tolerationsMatch (stringKeys ex_tol) (stringKeys ex_tol)
   \<and> mergeTolerations ex_yaml
        [''- effect: NoSchedule'', ''  key: dedicated'', ''  operator: Exists''] []
        0 [ex_block] ''tolerations:''
     = Some ([''tolerations:'', ''  - effect: NoSchedule'', ''    key: dedicated'',
              ''    operator: Exists''], 0, True, True)"
  by code_simp

subsection \<open>C4: an empty target key\<close>



subsection \<open>C5: wrapper offset\<close>

text \<open>
  C5, as stated, says that the wrapper offset of a document whose first key is a wrapper
  marker is the indentation width read from the document's first content line. The code
  returns the constant 2: with a marker whose children are indented by four spaces the
  offset is still 2.
\<close>

theorem C5_offset_not_read_from_document:
  "detectWrapperPattern (''_internal_defaults_do_not_set:'' @ [NL] @ ''    a: 1'') = 2
   \<and> childIndentOf (Split NL (''_internal_defaults_do_not_set:'' @ [NL] @ ''    a: 1'')) = Some 4"
  by code_simp

text \<open>
  C5, amended: the offset is 2 exactly when the first line that is neither blank nor a
  comment and contains a colon has zero indentation and its key (the trimmed text before
  the first colon) is a known wrapper marker; in every other case it is 0. The width is a
  constant of the code, not a measurement of the document.
\<close>

theorem C5_detectWrapperPattern_constant:
  "detectWrapperPattern content =
     (case firstKeyLine (Split NL content) of
        None \<Rightarrow> 0
      | Some l \<Rightarrow> if getIndentation l = 0
                     \<and> TrimSpace (hd (Split (CHR '':'') (TrimSpace l))) \<in> set KnownWrapperKeys
                  then 2 else 0)"
  unfolding detectWrapperPattern_def by (rule detectWrapperLines_find)

theorem C5_detectWrapperPattern_constant_witness:
  "firstKeyLine (Split NL (''# defaults'' @ [NL] @ ''_internal_defaults_do_not_set:'' @ [NL] @ ''  a: 1''))
     = Some ''_internal_defaults_do_not_set:''
   \<and> detectWrapperPattern (''# defaults'' @ [NL] @ ''_internal_defaults_do_not_set:'' @ [NL] @ ''  a: 1'') = 2"
proof -
  let ?c = "''# defaults'' @ [NL] @ ''_internal_defaults_do_not_set:'' @ [NL] @ ''  a: 1''"
  have f: "firstKeyLine (Split NL ?c) = Some ''_internal_defaults_do_not_set:''"
    by code_simp
  have k: "getIndentation ''_internal_defaults_do_not_set:'' = 0
      \<and> TrimSpace (hd (Split (CHR '':'') (TrimSpace ''_internal_defaults_do_not_set:'')))
          \<in> set KnownWrapperKeys"
    by code_simp
  from C5_detectWrapperPattern_constant [of ?c] f k show ?thesis by simp
qed

subsection \<open>C6: which \<open>spec:\<close> line is the pod specification\<close>



subsection \<open>C7: a root key that is not in the document\<close>




subsection \<open>C8: failures of the values patch engine\<close>




subsection \<open>C9: the placeholder reference of the existence prober\<close>

text \<open>
  C9, as stated, says that the reference "auto" is always reported as existing and that this
  result is produced without contacting the remote store. In the code the special case sits
  in the branch taken after both requests have failed: for "auto" the unit sends a HEAD and
  then a GET request before it stores \<open>true\<close>, and a unit that gets no pool slot before
  the deadline stores \<open>false\<close>.
\<close>

theorem C9_auto_contacts_store:
  "fst (CheckImagesExist [(store_down_env, ''auto'')]) ''auto'' = Some True
   \<and> snd (CheckImagesExist [(store_down_env, ''auto'')]) = [Head ''auto'', Get ''auto'']
   \<and> fst (CheckImagesExist [(deadline_env, ''auto'')]) ''auto'' = Some False"
  by (simp add: CheckImagesExist_def checkImage_def store_down_env_def deadline_env_def)

text \<open>
  C9, amended: a unit for the reference "auto" that obtains a pool slot and whose reference
  parses reports it as existing, after contacting the store: the HEAD request is always
  sent first, and the placeholder decides the result only when HEAD and GET have both
  failed. A unit that obtains no slot before the deadline reports "auto" as not existing and
  sends nothing. For a whole call: when every unit for "auto" obtains a slot and parses,
  the result map reports "auto" as existing and the store has received a HEAD request for it.
\<close>

theorem C9_auto_reported_after_remote_checks:
  "(slot_acquired env \<and> parse_ok env ''auto'' \<longrightarrow>
      fst (checkImage env ''auto'') \<and> hd (snd (checkImage env ''auto'')) = Head ''auto''
      \<and> (\<not> head_ok env ''auto'' \<longrightarrow>
            snd (checkImage env ''auto'') = [Head ''auto'', Get ''auto'']))
   \<and> (\<not> slot_acquired env \<longrightarrow> checkImage env ''auto'' = (False, []))
   \<and> ((\<forall>(e, i) \<in> set units. i = ''auto'' \<longrightarrow> slot_acquired e \<and> parse_ok e i)
        \<and> ''auto'' \<in> snd ` set units \<longrightarrow>
        fst (CheckImagesExist units) ''auto'' = Some True
        \<and> Head ''auto'' \<in> set (snd (CheckImagesExist units)))"
proof (intro conjI impI)
  assume "(\<forall>(e, i) \<in> set units. i = ''auto'' \<longrightarrow> slot_acquired e \<and> parse_ok e i)
        \<and> ''auto'' \<in> snd ` set units"
  then have a: "\<forall>(e, i) \<in> set units. i = ''auto'' \<longrightarrow> slot_acquired e \<and> parse_ok e i"
    and b: "''auto'' \<in> snd ` set units" by blast+
  from runUnits_auto [OF a, of Map.empty] b
  show "fst (CheckImagesExist units) ''auto'' = Some True"
    and "Head ''auto'' \<in> set (snd (CheckImagesExist units))"
    by (simp_all add: CheckImagesExist_def)
qed (auto simp: checkImage_def)

theorem C9_auto_reported_after_remote_checks_witness:
  "fst (checkImage store_down_env ''auto'')
   \<and> snd (checkImage store_down_env ''auto'') = [Head ''auto'', Get ''auto'']
   \<and> checkImage deadline_env ''auto'' = (False, [])
   \<and> fst (CheckImagesExist [(store_down_env, ''nginx''), (store_down_env, ''auto'')]) ''auto''
       = Some True
   \<and> Head ''auto'' \<in> set (snd (CheckImagesExist [(store_down_env, ''nginx''), (store_down_env, ''auto'')]))"
proof -
  have s: "slot_acquired store_down_env \<and> parse_ok store_down_env ''auto''"
    and h: "\<not> head_ok store_down_env ''auto''"
    by (simp_all add: store_down_env_def)
  have d: "\<not> slot_acquired deadline_env" by (simp add: deadline_env_def)
  have u: "(\<forall>(e, i) \<in> set [(store_down_env, ''nginx''), (store_down_env, ''auto'')].
              i = ''auto'' \<longrightarrow> slot_acquired e \<and> parse_ok e i)
           \<and> ''auto'' \<in> snd ` set [(store_down_env, ''nginx''), (store_down_env, ''auto'')]"
    by (simp add: store_down_env_def)
  from C9_auto_reported_after_remote_checks
         [of store_down_env "[(store_down_env, ''nginx''), (store_down_env, ''auto'')]"] s h u
  have 1: "fst (checkImage store_down_env ''auto'')
       \<and> snd (checkImage store_down_env ''auto'') = [Head ''auto'', Get ''auto'']
       \<and> fst (CheckImagesExist [(store_down_env, ''nginx''), (store_down_env, ''auto'')]) ''auto''
           = Some True
       \<and> Head ''auto'' \<in> set (snd (CheckImagesExist [(store_down_env, ''nginx''), (store_down_env, ''auto'')]))"
    by blast
  from C9_auto_reported_after_remote_checks [of deadline_env "[]"] d
  have 2: "checkImage deadline_env ''auto'' = (False, [])" by blast
  from 1 2 show ?thesis by blast
qed

subsection \<open>C10: an existing backup is never overwritten\<close>

text \<open>
  C10, as stated, says that \<open>backupValuesFile\<close> returns success whenever the backup file
  already exists. The function first checks that the values file is there: with a backup
  but no values file it returns the error "values.yaml does not exist" (and writes nothing).
\<close>

theorem C10_backup_present_values_missing:
  "files fs_backup_only ''chart/values.yaml.backup'' = Some ''a: 1''
   \<and> backupValuesFile fs_backup_only ''chart/values.yaml'' = (Some ErrValuesMissing, fs_backup_only)"
  by (simp add: backupValuesFile_def fs_backup_only_def)

text \<open>
  C10, amended: if the backup file already exists when \<open>backupValuesFile\<close> is called, the
  function writes nothing; it returns success when the values file exists and the error
  "values.yaml does not exist" when it does not. Hence the backup's contents are never
  overwritten by later backups, restores or writes of the values file, and a backup taken
  from a values file with contents \<open>v\<close> keeps the contents \<open>v\<close> through all of them.
\<close>

theorem C10_existing_backup_never_overwritten:
  "(files fs (valuesPath @ ''.backup'') = Some b \<longrightarrow>
       snd (backupValuesFile fs valuesPath) = fs
       \<and> (files fs valuesPath \<noteq> None \<longrightarrow> fst (backupValuesFile fs valuesPath) = None)
       \<and> (files fs valuesPath = None \<longrightarrow>
            fst (backupValuesFile fs valuesPath) = Some ErrValuesMissing)
       \<and> files (apply_values_ops valuesPath fs ops) (valuesPath @ ''.backup'') = Some b)
   \<and> (files fs (valuesPath @ ''.backup'') = None \<and> files fs valuesPath = Some v
        \<and> valuesPath \<notin> set (read_fails fs) \<and> valuesPath @ ''.backup'' \<notin> set (write_fails fs) \<longrightarrow>
       fst (backupValuesFile fs valuesPath) = None
       \<and> files (snd (backupValuesFile fs valuesPath)) (valuesPath @ ''.backup'') = Some v
       \<and> files (apply_values_ops valuesPath (snd (backupValuesFile fs valuesPath)) ops)
            (valuesPath @ ''.backup'') = Some v)"
proof (intro conjI impI)
  assume a: "files fs (valuesPath @ ''.backup'') = None \<and> files fs valuesPath = Some v
        \<and> valuesPath \<notin> set (read_fails fs) \<and> valuesPath @ ''.backup'' \<notin> set (write_fails fs)"
  then show "fst (backupValuesFile fs valuesPath) = None"
    by (simp add: backupValuesFile_def os_ReadFile_def os_WriteFile_def)
  from a show f: "files (snd (backupValuesFile fs valuesPath)) (valuesPath @ ''.backup'') = Some v"
    by (simp add: backupValuesFile_def os_ReadFile_def os_WriteFile_def)
  from ops_keep_backup [OF f]
  show "files (apply_values_ops valuesPath (snd (backupValuesFile fs valuesPath)) ops)
            (valuesPath @ ''.backup'') = Some v" .
next
  assume "files fs (valuesPath @ ''.backup'') = Some b"
  then show "files (apply_values_ops valuesPath fs ops) (valuesPath @ ''.backup'') = Some b"
    by (rule ops_keep_backup)
qed (auto simp: backupValuesFile_def Let_def)

theorem C10_existing_backup_never_overwritten_witness:
  "snd (backupValuesFile (snd (backupValuesFile fs_fresh ''chart/values.yaml'')) ''chart/values.yaml'')
     = snd (backupValuesFile fs_fresh ''chart/values.yaml'')
   \<and> fst (backupValuesFile (snd (backupValuesFile fs_fresh ''chart/values.yaml'')) ''chart/values.yaml'')
     = None
   \<and> files (apply_values_ops ''chart/values.yaml'' (snd (backupValuesFile fs_fresh ''chart/values.yaml''))
        [OpWriteValues ''a: 2'', OpBackup, OpRestore, OpWriteValues ''a: 3'', OpBackup])
        ''chart/values.yaml.backup'' = Some ''a: 1''
   \<and> snd (backupValuesFile fs_backup_only ''chart/values.yaml'') = fs_backup_only
   \<and> fst (backupValuesFile fs_backup_only ''chart/values.yaml'') = Some ErrValuesMissing"
proof -
  let ?vp = "''chart/values.yaml''"
  let ?fs1 = "snd (backupValuesFile fs_fresh ?vp)"
  let ?ops = "[OpWriteValues ''a: 2'', OpBackup, OpRestore, OpWriteValues ''a: 3'', OpBackup]"
  have fresh: "files fs_fresh (?vp @ ''.backup'') = None \<and> files fs_fresh ?vp = Some ''a: 1''
        \<and> ?vp \<notin> set (read_fails fs_fresh) \<and> ?vp @ ''.backup'' \<notin> set (write_fails fs_fresh)"
    by (simp add: fs_fresh_def)
  from C10_existing_backup_never_overwritten [of fs_fresh ?vp "''a: 1''" ?ops "''a: 1''"] fresh
  have b1: "files ?fs1 (?vp @ ''.backup'') = Some ''a: 1''"
    and b2: "files (apply_values_ops ?vp ?fs1 ?ops) (?vp @ ''.backup'') = Some ''a: 1''"
    by blast+
  have v1: "files ?fs1 ?vp \<noteq> None"
    by (simp add: backupValuesFile_def os_ReadFile_def os_WriteFile_def fs_fresh_def)
  from C10_existing_backup_never_overwritten [of ?fs1 ?vp "''a: 1''" ?ops "''a: 1''"] b1 v1
  have c: "snd (backupValuesFile ?fs1 ?vp) = ?fs1" "fst (backupValuesFile ?fs1 ?vp) = None"
    by blast+
  have only: "files fs_backup_only (?vp @ ''.backup'') = Some ''a: 1''"
    "files fs_backup_only ?vp = None"
    by (simp_all add: fs_backup_only_def)
  from C10_existing_backup_never_overwritten [of fs_backup_only ?vp "''a: 1''" "[]" "''a: 1''"] only
  have d: "snd (backupValuesFile fs_backup_only ?vp) = fs_backup_only"
    "fst (backupValuesFile fs_backup_only ?vp) = Some ErrValuesMissing"
    by blast+
  from b2 c d show ?thesis by simp
qed


end
